theory Spec2Isabelle
  imports Complex_Main "HOL-Library.Word" "HOL-Library.Char_ord" "HOL-Library.List_Lexorder"
begin

unbundle bit_operations_syntax

section \<open>Discovery engine (pkg/discover/discover.go)\<close>

subsection \<open>Data model\<close>

text \<open>
  Go strings and byte slices are sequences of 8-bit values. Text the program builds is a
  \<^typ>\<open>string\<close>; the bytes of a datagram and of a hardware address are \<^typ>\<open>8 word\<close> lists.
  Calls of the logger are left out: they change nothing of the state described here.
\<close>

type_synonym byte = "8 word"

text \<open>\<^verbatim>\<open>net.UDPAddr\<close>: the origin of a datagram (the zone is not used by the program).\<close>

record UDPAddr =
  addr_IP :: "byte list"
  addr_Port :: int

text \<open>\<^verbatim>\<open>type Packet struct\<close>: one decoded discovery packet, which is also the device record.\<close>

record Packet =
  SourceIP :: string
  Port :: int
  MacAddress :: "byte list"
  DeviceType :: int

text \<open>\<^verbatim>\<open>type Packetlist map[string]Packet\<close>, the device table \<^verbatim>\<open>discoverlist\<close>.\<close>

type_synonym Packetlist = "string \<rightharpoonup> Packet"

text \<open>The zero value of \<^verbatim>\<open>Packet\<close>, which indexing a Go map yields for an absent key.\<close>

definition zero_Packet :: Packet where
  "zero_Packet = \<lparr>SourceIP = [], Port = 0, MacAddress = [], DeviceType = 0\<rparr>"

definition map_index :: "Packetlist \<Rightarrow> string \<Rightarrow> Packet" where
  "map_index m k = (case m k of None \<Rightarrow> zero_Packet | Some p \<Rightarrow> p)"

subsection \<open>Rendering a hardware address\<close>

text \<open>
  \<^verbatim>\<open>net.HardwareAddr.String\<close> of the Go standard library: the empty address is the empty
  string; otherwise every byte is written as two lower-case hexadecimal digits, with a
  colon before every byte but the first.
\<close>

definition hexDigit :: string where
  "hexDigit = ''0123456789abcdef''"

definition hex_byte :: "byte \<Rightarrow> string" where
  "hex_byte b = [hexDigit ! unat (drop_bit 4 b), hexDigit ! unat (b AND 0xF)]"

fun HardwareAddr_String :: "byte list \<Rightarrow> string" where
  "HardwareAddr_String [] = []"
| "HardwareAddr_String [b] = hex_byte b"
| "HardwareAddr_String (b # c # bs) = hex_byte b @ CHR '':'' # HardwareAddr_String (c # bs)"

subsection \<open>The receive loop\<close>

text \<open>
  One call of \<^verbatim>\<open>connection.ReadFromUDP\<close> fails (\<open>Inl\<close>, with the error text) or yields the
  bytes \<^verbatim>\<open>inputBytes[:length]\<close> with the sender's address.
\<close>

type_synonym read_result = "string + byte list \<times> UDPAddr"

text \<open>
  What one pass through the body of the \<^verbatim>\<open>for\<close> loop of \<^verbatim>\<open>listen\<close> does:
  \<^item> \<open>Return\<close>: the read failed, the error is logged and the function returns;
  \<^item> \<open>Continue\<close>: the datagram is skipped and the loop reads again;
  \<^item> \<open>Panic\<close>: an index expression is out of range, which in Go is a run-time panic;
  \<^item> \<open>Send m\<close>: the packet \<open>m\<close> is sent on the channel.
\<close>

datatype listen_outcome = Return | Continue | Panic | Send Packet

text \<open>
  The body of the loop. \<open>IP_String\<close> stands for \<^verbatim>\<open>net.IP.String\<close> of the standard library.
  The guard is \<^verbatim>\<open>len(buffer.String()) < 6\<close>; the slice \<^verbatim>\<open>[0:6]\<close> needs six bytes and the
  index \<^verbatim>\<open>[6]\<close> needs seven, each panicking when the string is shorter.
\<close>

definition listen_body :: "(byte list \<Rightarrow> string) \<Rightarrow> read_result \<Rightarrow> listen_outcome" where
  "listen_body IP_String r =
     (case r of
        Inl err \<Rightarrow> Return
      | Inr (buffer, udpaddr) \<Rightarrow>
          if length buffer < 6 then Continue
          else if \<not> 6 \<le> length buffer then Panic
          else let macString = take 6 buffer in
            if \<not> 6 < length buffer then Panic
            else let deviceType = uint (buffer ! 6) in
              Send \<lparr>SourceIP = IP_String (addr_IP udpaddr),
                    Port = addr_Port udpaddr,
                    MacAddress = macString,
                    DeviceType = deviceType\<rparr>)"

subsection \<open>The table writer\<close>

text \<open>The body of the loop of \<^verbatim>\<open>update\<close>: one message taken from the channel is stored
  under the rendering of its hardware address.\<close>

definition update_step :: "Packetlist \<Rightarrow> Packet \<Rightarrow> Packetlist" where
  "update_step discoverlist msg = discoverlist(HardwareAddr_String (MacAddress msg) \<mapsto> msg)"

text \<open>The loop of \<^verbatim>\<open>update\<close> run over the messages received so far, oldest first.\<close>

definition update :: "Packetlist \<Rightarrow> Packet list \<Rightarrow> Packetlist" where
  "update discoverlist msgs = foldl update_step discoverlist msgs"

text \<open>\<^verbatim>\<open>TargetByMacaddr\<close> reads the table; reading a Go map does not change it, and the
  table is returned beside the result to make that explicit.\<close>

definition TargetByMacaddr :: "string \<Rightarrow> Packetlist \<Rightarrow> string \<times> Packetlist" where
  "TargetByMacaddr macaddr discoverlist = (SourceIP (map_index discoverlist macaddr), discoverlist)"

subsection \<open>The manifest builder\<close>

text \<open>
  A Go slice is \<open>None\<close> when it is \<^verbatim>\<open>nil\<close> and \<open>Some xs\<close> otherwise; \<^verbatim>\<open>append\<close> to a
  \<^verbatim>\<open>nil\<close> slice allocates, so its result is never \<^verbatim>\<open>nil\<close>.
\<close>

type_synonym 'a slice = "'a list option"

definition append_slice :: "'a slice \<Rightarrow> 'a \<Rightarrow> 'a slice" where
  "append_slice s x = (case s of None \<Rightarrow> Some [x] | Some xs \<Rightarrow> Some (xs @ [x]))"

text \<open>\<^verbatim>\<open>type LabelsList map[string]string\<close>, written as the map literal lists its pairs.\<close>

type_synonym LabelsList = "(string \<times> string) list"

record TargetsEntry =
  Targets :: "string slice"
  Labels :: LabelsList

type_synonym TargetsList = "TargetsEntry slice"

text \<open>\<^verbatim>\<open>fmt.Sprintf("%d", i)\<close>: the decimal digits of an \<^verbatim>\<open>int\<close>, with a minus sign when negative.\<close>

fun decimal :: "nat \<Rightarrow> string" where
  "decimal n = (if n < 10 then [''0123456789'' ! n]
                else decimal (n div 10) @ [''0123456789'' ! (n mod 10)])"

declare decimal.simps [simp del]

definition Sprintf_d :: "int \<Rightarrow> string" where
  "Sprintf_d i = (if i < 0 then CHR ''-'' # decimal (nat (- i)) else decimal (nat i))"

text \<open>The entry appended for one pair \<^verbatim>\<open>macaddr, data\<close> of the table. The verb \<^verbatim>\<open>%s\<close>
  applied to a \<^verbatim>\<open>net.HardwareAddr\<close> prints its \<^verbatim>\<open>String()\<close>.\<close>

definition Discover_entry :: "string \<Rightarrow> string \<Rightarrow> Packet \<Rightarrow> TargetsEntry" where
  "Discover_entry LocalAddress macaddr data =
     \<lparr>Targets = Some [LocalAddress],
      Labels = [(''instance'', SourceIP data),
                (''__metrics_path__'', ''/device_by_mac/'' @ HardwareAddr_String (MacAddress data)),
                (''__mac_address'', macaddr),
                (''__device_type'', Sprintf_d (DeviceType data))]\<rparr>"

text \<open>
  Go leaves the order in which \<^verbatim>\<open>range\<close> visits a map unspecified. The order of one run
  of the loop is a list \<open>ks\<close> of the keys, each key of the table once.
\<close>

definition range_order :: "Packetlist \<Rightarrow> string list \<Rightarrow> bool" where
  "range_order discoverlist ks \<longleftrightarrow> distinct ks \<and> set ks = dom discoverlist"

text \<open>The loop of \<^verbatim>\<open>Discover\<close>: \<^verbatim>\<open>targetlist\<close> starts as the \<^verbatim>\<open>nil\<close> slice.\<close>

definition Discover_targetlist :: "string \<Rightarrow> string list \<Rightarrow> Packetlist \<Rightarrow> TargetsList" where
  "Discover_targetlist LocalAddress ks discoverlist =
     foldl (\<lambda>targetlist macaddr.
              append_slice targetlist
                (Discover_entry LocalAddress macaddr (map_index discoverlist macaddr)))
       None ks"

subsection \<open>Serialisation of the manifest\<close>

text \<open>
  \<^verbatim>\<open>json.Marshal\<close> of the Go standard library on the types above: a \<^verbatim>\<open>nil\<close> slice is
  \<^verbatim>\<open>null\<close>, any other slice an array; a struct is an object of its tagged fields in
  declaration order; a map is an object with its keys sorted bytewise. The encoding of a
  string value (quotes and escapes) is the parameter \<open>q\<close>. None of these types can make
  \<^verbatim>\<open>json.Marshal\<close> fail.
\<close>

definition dquote :: char where
  "dquote = CHR 0x22"

fun join_comma :: "string list \<Rightarrow> string" where
  "join_comma [] = []"
| "join_comma [x] = x"
| "join_comma (x # y # ys) = x @ CHR '','' # join_comma (y # ys)"

definition json_array :: "string list \<Rightarrow> string" where
  "json_array xs = CHR ''['' # join_comma xs @ '']''"

definition json_strings :: "(string \<Rightarrow> string) \<Rightarrow> string slice \<Rightarrow> string" where
  "json_strings q s = (case s of None \<Rightarrow> ''null'' | Some xs \<Rightarrow> json_array (map q xs))"

definition json_LabelsList :: "(string \<Rightarrow> string) \<Rightarrow> LabelsList \<Rightarrow> string" where
  "json_LabelsList q m =
     CHR ''{'' # join_comma (map (\<lambda>(k, v). q k @ CHR '':'' # q v) (sort_key fst m)) @ ''}''"

definition json_TargetsEntry :: "(string \<Rightarrow> string) \<Rightarrow> TargetsEntry \<Rightarrow> string" where
  "json_TargetsEntry q e =
     CHR ''{'' # dquote # ''targets'' @ dquote # CHR '':'' # json_strings q (Targets e)
       @ CHR '','' # dquote # ''labels'' @ dquote # CHR '':'' # json_LabelsList q (Labels e) @ ''}''"

definition json_Marshal :: "(string \<Rightarrow> string) \<Rightarrow> TargetsList \<Rightarrow> string" where
  "json_Marshal q targetlist =
     (case targetlist of None \<Rightarrow> ''null''
      | Some es \<Rightarrow> json_array (map (json_TargetsEntry q) es))"

text \<open>\<^verbatim>\<open>Discover\<close>: the bytes and the \<^verbatim>\<open>nil\<close> error (\<open>Inr\<close>) that \<^verbatim>\<open>json.Marshal\<close> returns.\<close>

definition Discover :: "(string \<Rightarrow> string) \<Rightarrow> string \<Rightarrow> string list \<Rightarrow> Packetlist \<Rightarrow> string + string" where
  "Discover q LocalAddress ks discoverlist =
     Inr (json_Marshal q (Discover_targetlist LocalAddress ks discoverlist))"

text \<open>\<^verbatim>\<open>discoverHandler\<close> of the main package: status 200 with the manifest as
  \<^verbatim>\<open>application/json\<close>, or status 500 with no body when \<^verbatim>\<open>Discover\<close> fails.\<close>

datatype discover_response = Manifest nat string string | Failed nat

definition discoverHandler :: "(string \<Rightarrow> string) \<Rightarrow> string \<Rightarrow> string list \<Rightarrow> Packetlist \<Rightarrow> discover_response" where
  "discoverHandler q LocalAddress ks discoverlist =
     (case Discover q LocalAddress ks discoverlist of
        Inr data \<Rightarrow> Manifest 200 ''application/json'' data
      | Inl e \<Rightarrow> Failed 500)"

subsection \<open>The two goroutines and their channel\<close>

text \<open>
  \<^verbatim>\<open>Initialize\<close> makes the empty table and a channel of capacity 10, and starts \<^verbatim>\<open>listen\<close>
  and \<^verbatim>\<open>update\<close>. The listener is in its loop (\<open>Listening\<close>), waits in the send on a full
  channel with a packet in hand (\<open>Blocked\<close>), has returned after a failed read
  (\<open>Returned\<close>) or has panicked (\<open>Panicked\<close>).
\<close>

datatype listener = Listening | Blocked Packet | Returned | Panicked

record discover_state =
  listener :: listener
  channel :: "Packet list"
  discoverlist :: Packetlist

definition capacity :: nat where
  "capacity = 10"

definition Initialize :: discover_state where
  "Initialize = \<lparr>listener = Listening, channel = [], discoverlist = Map.empty\<rparr>"

text \<open>The listener reads one datagram and runs the body of its loop; it reads only
  while it is in the loop.\<close>

definition listen_read :: "(byte list \<Rightarrow> string) \<Rightarrow> read_result \<Rightarrow> discover_state \<Rightarrow> discover_state" where
  "listen_read IP_String r s =
     (if listener s \<noteq> Listening then s
      else case listen_body IP_String r of
             Return \<Rightarrow> s\<lparr>listener := Returned\<rparr>
           | Continue \<Rightarrow> s
           | Panic \<Rightarrow> s\<lparr>listener := Panicked\<rparr>
           | Send message \<Rightarrow>
               if length (channel s) < capacity then s\<lparr>channel := channel s @ [message]\<rparr>
               else s\<lparr>listener := Blocked message\<rparr>)"

text \<open>The writer takes the oldest message of the channel, which lets a blocked send
  complete, and stores it; on an empty channel it waits.\<close>

definition update_receive :: "discover_state \<Rightarrow> discover_state" where
  "update_receive s =
     (case channel s of
        [] \<Rightarrow> s
      | msg # rest \<Rightarrow>
          let s = (case listener s of
                     Blocked message \<Rightarrow> s\<lparr>listener := Listening, channel := rest @ [message]\<rparr>
                   | _ \<Rightarrow> s\<lparr>channel := rest\<rparr>)
          in s\<lparr>discoverlist := update_step (discoverlist s) msg\<rparr>)"

text \<open>An interleaving of the two goroutines is a list of events.\<close>

datatype event = Read read_result | Receive

fun run :: "(byte list \<Rightarrow> string) \<Rightarrow> event list \<Rightarrow> discover_state \<Rightarrow> discover_state" where
  "run IP_String [] s = s"
| "run IP_String (Read r # evs) s = run IP_String evs (listen_read IP_String r s)"
| "run IP_String (Receive # evs) s = run IP_String evs (update_receive s)"

text \<open>The table keeps, under every key, a record whose hardware address renders to that key.\<close>

definition table_inv :: "Packetlist \<Rightarrow> bool" where
  "table_inv tbl \<longleftrightarrow> (\<forall>k p. tbl k = Some p \<longrightarrow> k = HardwareAddr_String (MacAddress p))"

subsection \<open>Sample values\<close>

text \<open>\<^verbatim>\<open>net.IP.String\<close> on the four bytes of an IPv4 address: the bytes in decimal,
  separated by dots.\<close>

fun dotted :: "byte list \<Rightarrow> string" where
  "dotted [] = []"
| "dotted [b] = decimal (unat b)"
| "dotted (b # c # bs) = decimal (unat b) @ CHR ''.'' # dotted (c # bs)"

text \<open>The JSON encoding of a string none of whose characters needs an escape: the string
  between double quotes.\<close>

definition quoted :: "string \<Rightarrow> string" where
  "quoted s = dquote # s @ [dquote]"

section \<open>Scrape handlers (main package)\<close>

subsection \<open>Data model\<close>

text \<open>\<^verbatim>\<open>type MystromReqStatus uint32\<close> with its four constants.\<close>

datatype MystromReqStatus = OK | ErrorSocket | ErrorTimeout | ErrorParsingValue

text \<open>
  What a handler call takes from outside the two source files:
  \<^item> \<open>status_String\<close>: the \<^verbatim>\<open>String\<close> method that \<^verbatim>\<open>stringer\<close> generates for
    \<^verbatim>\<open>MystromReqStatus\<close>;
  \<^item> \<open>exporter_Scrape\<close>: \<^verbatim>\<open>mystrom.NewExporter(target).Scrape()\<close>, the device client. A call
    acts on what lies outside the process, the network and the device, a value of type
    \<open>'w\<close>: from the target and that value before the call it gives the text of the error
    (\<open>Inl\<close>) or the gatherer (\<open>Inr\<close>), and that value after the call;
  \<^item> \<open>elapsed\<close>: \<^verbatim>\<open>time.Since(start).Seconds()\<close>, measured around that call. Its
    \<^verbatim>\<open>float64\<close> is read as a real number.
\<close>

record ('g, 'w) scrape_env =
  status_String :: "MystromReqStatus \<Rightarrow> string"
  exporter_Scrape :: "string \<Rightarrow> 'w \<Rightarrow> (string + 'g) \<times> 'w"
  elapsed :: real

text \<open>
  What a handler touches: the two process-wide counter vectors, a counter of a label
  combination never used being 0, and \<open>world\<close>, what the device client acts on; only a
  call of the device client changes it.
\<close>

record 'w exporter_state =
  mystromDurationCounterVec :: "string \<Rightarrow> real"
  mystromRequestsCounterVec :: "string \<times> string \<Rightarrow> nat"
  world :: 'w

text \<open>\<^verbatim>\<open>WithLabelValues(...).Inc()\<close> and \<^verbatim>\<open>WithLabelValues(...).Add(v)\<close> of a counter vector.\<close>

definition Inc :: "('k \<Rightarrow> nat) \<Rightarrow> 'k \<Rightarrow> ('k \<Rightarrow> nat)" where
  "Inc vec labels = vec(labels := vec labels + 1)"

definition Add :: "('k \<Rightarrow> real) \<Rightarrow> 'k \<Rightarrow> real \<Rightarrow> ('k \<Rightarrow> real)" where
  "Add vec labels v = vec(labels := vec labels + v)"

text \<open>The part of an \<^verbatim>\<open>http.Request\<close> the handlers read: the variables of the matched
  route (\<^verbatim>\<open>mux.Vars\<close>) and the values of the query (\<^verbatim>\<open>r.URL.Query()\<close>).\<close>

record Request =
  Vars :: "string \<rightharpoonup> string"
  Query :: "string \<rightharpoonup> string list"

text \<open>\<^verbatim>\<open>url.Values.Get\<close> and \<^verbatim>\<open>url.Values.Set\<close>; indexing a \<^verbatim>\<open>map[string]string\<close>.\<close>

definition Values_Get :: "(string \<rightharpoonup> string list) \<Rightarrow> string \<Rightarrow> string" where
  "Values_Get v key = (case v key of None \<Rightarrow> [] | Some [] \<Rightarrow> [] | Some (x # xs) \<Rightarrow> x)"

definition Values_Set :: "(string \<rightharpoonup> string list) \<Rightarrow> string \<Rightarrow> string \<Rightarrow> (string \<rightharpoonup> string list)" where
  "Values_Set v key val = v(key \<mapsto> [val])"

definition string_index :: "(string \<rightharpoonup> string) \<Rightarrow> string \<Rightarrow> string" where
  "string_index m k = (case m k of None \<Rightarrow> [] | Some x \<Rightarrow> x)"

text \<open>What a handler writes: \<^verbatim>\<open>http.Error(w, msg, code)\<close>, or the metrics of the gatherer
  served by \<^verbatim>\<open>promhttp\<close>.\<close>

datatype 'g response = Error string nat | ServeHTTP 'g

subsection \<open>Substring test\<close>

text \<open>\<^verbatim>\<open>strings.HasPrefix\<close> and \<^verbatim>\<open>strings.Contains\<close>.\<close>

fun HasPrefix :: "string \<Rightarrow> string \<Rightarrow> bool" where
  "HasPrefix s [] = True"
| "HasPrefix [] (p # ps) = False"
| "HasPrefix (c # cs) (p # ps) = (c = p \<and> HasPrefix cs ps)"

fun Contains :: "string \<Rightarrow> string \<Rightarrow> bool" where
  "Contains [] substr = (substr = [])"
| "Contains (c # cs) substr = (HasPrefix (c # cs) substr \<or> Contains cs substr)"

subsection \<open>The handlers\<close>

definition squote :: char where
  "squote = CHR 0x27"

text \<open>
  \<^verbatim>\<open>scrapeHandler\<close>. The verb \<^verbatim>\<open>%v\<close> prints a string as it is and an error as its text.
  Status 400 is \<^verbatim>\<open>http.StatusBadRequest\<close>, 500 is \<^verbatim>\<open>http.StatusInternalServerError\<close>.
\<close>

definition scrapeHandler :: "('g, 'w) scrape_env \<Rightarrow> Request \<Rightarrow> 'w exporter_state \<Rightarrow> 'g response \<times> 'w exporter_state" where
  "scrapeHandler env r st =
     (let target = Values_Get (Query r) ''target'' in
      if target = [] then
        (Error (squote # ''target'' @ squote # '' parameter must be specified'') 400, st)
      else
        let (result, w) = exporter_Scrape env target (world st);
            st = st\<lparr>world := w\<rparr>;
            duration = elapsed env
        in case result of
             Inl err \<Rightarrow>
               let st =
                 (if Contains err ''unable to connect with target'' then
                    st\<lparr>mystromRequestsCounterVec :=
                         Inc (mystromRequestsCounterVec st) (target, status_String env ErrorSocket)\<rparr>
                  else if Contains err ''i/o timeout'' then
                    st\<lparr>mystromRequestsCounterVec :=
                         Inc (mystromRequestsCounterVec st) (target, status_String env ErrorTimeout)\<rparr>
                  else
                    st\<lparr>mystromRequestsCounterVec :=
                         Inc (mystromRequestsCounterVec st) (target, status_String env ErrorParsingValue)\<rparr>)
               in (Error (''failed to scrape target '' @ squote # target @ squote # '': '' @ err) 500, st)
           | Inr gatherer \<Rightarrow>
               let st = st\<lparr>mystromDurationCounterVec :=
                              Add (mystromDurationCounterVec st) target duration\<rparr>;
                   st = st\<lparr>mystromRequestsCounterVec :=
                              Inc (mystromRequestsCounterVec st) (target, status_String env OK)\<rparr>
               in (ServeHTTP gatherer, st))"

text \<open>
  \<^verbatim>\<open>scrapeHandlerByMac\<close>, with the device table \<open>tbl\<close> of the discovery package at the
  time of the call. The query values with \<^verbatim>\<open>target\<close> set are encoded into
  \<^verbatim>\<open>r.URL.RawQuery\<close>, from which \<^verbatim>\<open>scrapeHandler\<close> parses them back.
\<close>

definition scrapeHandlerByMac :: "('g, 'w) scrape_env \<Rightarrow> Packetlist \<Rightarrow> Request \<Rightarrow> 'w exporter_state \<Rightarrow> 'g response \<times> 'w exporter_state" where
  "scrapeHandlerByMac env tbl r st =
     (let params = Vars r;
          target = fst (TargetByMacaddr (string_index params ''macaddr'') tbl);
          rq = Values_Set (Query r) ''target'' target
      in scrapeHandler env (r\<lparr>Query := rq\<rparr>) st)"

text \<open>The status that the chain of tests in \<^verbatim>\<open>scrapeHandler\<close> selects for the text of an
  error.\<close>

definition kind_of :: "string \<Rightarrow> MystromReqStatus" where
  "kind_of err = (if Contains err ''unable to connect with target'' then ErrorSocket
                  else if Contains err ''i/o timeout'' then ErrorTimeout
                  else ErrorParsingValue)"

subsection \<open>Sample values\<close>

text \<open>The \<^verbatim>\<open>String\<close> method that the \<^verbatim>\<open>go:generate stringer\<close> line of the main package asks
  for: the name of each constant.\<close>

fun stringer :: "MystromReqStatus \<Rightarrow> string" where
  "stringer OK = ''OK''"
| "stringer ErrorSocket = ''ErrorSocket''"
| "stringer ErrorTimeout = ''ErrorTimeout''"
| "stringer ErrorParsingValue = ''ErrorParsingValue''"

text \<open>
  A substitute device client that records its calls: what it acts on is the list of the
  targets it was called with so far, oldest first. Each call appends its target to the
  list and answers as \<open>answer\<close> says.
\<close>

definition counting_client :: "(string \<Rightarrow> string + 'g) \<Rightarrow> string \<Rightarrow> string list \<Rightarrow> (string + 'g) \<times> string list" where
  "counting_client answer target calls = (answer target, calls @ [target])"

text \<open>The state after \<^verbatim>\<open>setupMetrics\<close>, before any request and any call of the substitute
  client; a request whose query is \<^verbatim>\<open>target=t\<close>; a request of the route
  \<^verbatim>\<open>/device_by_mac/{macaddr}\<close> without a query.\<close>

definition fresh_state :: "string list exporter_state" where
  "fresh_state = \<lparr>mystromDurationCounterVec = (\<lambda>target. 0),
                  mystromRequestsCounterVec = (\<lambda>labels. 0),
                  world = []\<rparr>"

definition device_request :: "string \<Rightarrow> Request" where
  "device_request t = \<lparr>Vars = Map.empty, Query = [''target'' \<mapsto> [t]]\<rparr>"

definition mac_request :: "string \<Rightarrow> Request" where
  "mac_request macaddr = \<lparr>Vars = [''macaddr'' \<mapsto> macaddr], Query = Map.empty\<rparr>"

section \<open>Properties of the discovery engine\<close>

subsection \<open>The receive loop\<close>

text \<open>The three ranges of the length of a datagram: under 6 bytes it is skipped, at 6
  bytes the index of byte 6 is out of range, from 7 bytes on a packet is sent.\<close>

lemma listen_body_short: "length buffer < 6 \<Longrightarrow> listen_body IPS (Inr (buffer, a)) = Continue"
  by (simp add: listen_body_def)

lemma listen_body_six: "length buffer = 6 \<Longrightarrow> listen_body IPS (Inr (buffer, a)) = Panic"
  by (simp add: listen_body_def)

lemma listen_body_decode:
  "7 \<le> length buffer \<Longrightarrow>
   listen_body IPS (Inr (buffer, a)) =
     Send \<lparr>SourceIP = IPS (addr_IP a), Port = addr_Port a,
           MacAddress = take 6 buffer, DeviceType = uint (buffer ! 6)\<rparr>"
  by (simp add: listen_body_def Let_def)

subsection \<open>The manifest builder\<close>

text \<open>The loop of \<open>Discover\<close> leaves the \<^verbatim>\<open>nil\<close> slice when it visits no key, and
  otherwise one entry for each key visited, in the order of the visit.\<close>

lemma foldl_append_slice:
  "foldl (\<lambda>tl k. append_slice tl (g k)) (Some acc) ks = Some (acc @ map g ks)"
  by (induction ks arbitrary: acc) (simp_all add: append_slice_def)

lemma Discover_targetlist_eq:
  "Discover_targetlist la ks tbl =
     (if ks = [] then None else Some (map (\<lambda>k. Discover_entry la k (map_index tbl k)) ks))"
proof (cases ks)
  case Nil
  then show ?thesis by (simp add: Discover_targetlist_def)
next
  case (Cons k ks')
  then show ?thesis
    using foldl_append_slice [of "\<lambda>k. Discover_entry la k (map_index tbl k)" "[Discover_entry la k (map_index tbl k)]" ks']
    by (simp add: Discover_targetlist_def append_slice_def)
qed

lemma labels_of_entry:
  "map_of (Labels (Discover_entry la k p)) ''__mac_address'' = Some k"
  "map_of (Labels (Discover_entry la k p)) ''__metrics_path__'' = Some (''/device_by_mac/'' @ HardwareAddr_String (MacAddress p))"
  "map_of (Labels (Discover_entry la k p)) ''instance'' = Some (SourceIP p)"
  "map_of (Labels (Discover_entry la k p)) ''__device_type'' = Some (Sprintf_d (DeviceType p))"
  by (simp_all add: Discover_entry_def)

lemma json_labels_entry:
  "json_LabelsList q (Labels (Discover_entry la k p)) =
     CHR ''{'' # q ''__device_type'' @ CHR '':'' # q (Sprintf_d (DeviceType p)) @ CHR '','' #
       q ''__mac_address'' @ CHR '':'' # q k @ CHR '','' #
       q ''__metrics_path__'' @ CHR '':'' # q (''/device_by_mac/'' @ HardwareAddr_String (MacAddress p)) @ CHR '','' #
       q ''instance'' @ CHR '':'' # q (SourceIP p) @ ''}''"
  by (simp add: json_LabelsList_def Discover_entry_def)

subsection \<open>The invariant of the table\<close>

text \<open>\<open>table_inv\<close> holds at the start and is kept by every step of the two goroutines;
  the listener never touches the table.\<close>

lemma table_inv_empty: "table_inv Map.empty"
  by (simp add: table_inv_def)

lemma table_inv_update_step: "table_inv tbl \<Longrightarrow> table_inv (update_step tbl msg)"
  by (auto simp: table_inv_def update_step_def)

lemma table_inv_update: "table_inv tbl \<Longrightarrow> table_inv (update tbl msgs)"
  unfolding update_def
  by (induction msgs arbitrary: tbl) (simp_all add: table_inv_update_step)

lemma table_inv_listen_read: "discoverlist (listen_read IPS r s) = discoverlist s"
  by (simp add: listen_read_def split: listen_outcome.splits)

lemma table_inv_update_receive:
  "table_inv (discoverlist s) \<Longrightarrow> table_inv (discoverlist (update_receive s))"
  by (auto simp: update_receive_def Let_def table_inv_update_step split: list.splits listener.splits)

lemma table_inv_run:
  "table_inv (discoverlist s) \<Longrightarrow> table_inv (discoverlist (run IPS evs s))"
proof (induction IPS evs s rule: run.induct)
  case (1 IPS s)
  then show ?case by simp
next
  case (2 IPS r evs s)
  then show ?case by (simp add: table_inv_listen_read)
next
  case (3 IPS evs s)
  then show ?case by (simp add: table_inv_update_receive)
qed


section \<open>Properties of the scrape handlers\<close>

text \<open>\<open>Contains\<close> is the substring test.\<close>

lemma HasPrefix_iff: "HasPrefix s p \<longleftrightarrow> (\<exists>r. s = p @ r)"
  by (induction s p rule: HasPrefix.induct) auto

lemma Contains_iff: "Contains s sub \<longleftrightarrow> (\<exists>p r. s = p @ sub @ r)"
proof (induction s)
  case Nil
  then show ?case by auto
next
  case (Cons c cs)
  show ?case
  proof
    assume "Contains (c # cs) sub"
    then consider "HasPrefix (c # cs) sub" | "Contains cs sub" by auto
    then show "\<exists>p r. c # cs = p @ sub @ r"
    proof cases
      case 1
      then obtain r where "c # cs = sub @ r" unfolding HasPrefix_iff ..
      then have "c # cs = [] @ sub @ r" by simp
      then show ?thesis by blast
    next
      case 2
      with Cons obtain p r where "cs = p @ sub @ r" by blast
      then have "c # cs = (c # p) @ sub @ r" by simp
      then show ?thesis by blast
    qed
  next
    assume "\<exists>p r. c # cs = p @ sub @ r"
    then obtain p r where e: "c # cs = p @ sub @ r" by blast
    show "Contains (c # cs) sub"
    proof (cases p)
      case Nil
      with e have "HasPrefix (c # cs) sub" unfolding HasPrefix_iff by auto
      then show ?thesis by simp
    next
      case (Cons a p')
      with e have "cs = p' @ sub @ r" by simp
      with Cons.IH have "Contains cs sub" by blast
      then show ?thesis by simp
    qed
  qed
qed

lemma scrapeHandler_missing:
  "Values_Get (Query r) ''target'' = [] \<Longrightarrow>
   scrapeHandler env r st =
     (Error (squote # ''target'' @ squote # '' parameter must be specified'') 400, st)"
  by (simp add: scrapeHandler_def)

lemma scrapeHandler_failure:
  assumes "Values_Get (Query r) ''target'' = target" "target \<noteq> []"
    and "exporter_Scrape env target (world st) = (Inl err, w)"
  shows "scrapeHandler env r st =
     (Error (''failed to scrape target '' @ squote # target @ squote # '': '' @ err) 500,
      st\<lparr>world := w,
         mystromRequestsCounterVec :=
           Inc (mystromRequestsCounterVec st) (target, status_String env (kind_of err))\<rparr>)"
  using assms by (simp add: scrapeHandler_def kind_of_def Let_def)

lemma scrapeHandler_success:
  assumes "Values_Get (Query r) ''target'' = target" "target \<noteq> []"
    and "exporter_Scrape env target (world st) = (Inr gatherer, w)"
  shows "scrapeHandler env r st =
     (ServeHTTP gatherer,
      st\<lparr>world := w,
         mystromDurationCounterVec := Add (mystromDurationCounterVec st) target (elapsed env),
         mystromRequestsCounterVec :=
           Inc (mystromRequestsCounterVec st) (target, status_String env OK)\<rparr>)"
  using assms by (simp add: scrapeHandler_def Let_def)

lemma scrapeHandlerByMac_target:
  "Values_Get (Query (r\<lparr>Query := Values_Set (Query r) ''target'' t\<rparr>)) ''target'' = t"
  by (simp add: Values_Get_def Values_Set_def)

section \<open>The claims about the discovery engine\<close>

lemma listen_read_short:
  "length buffer < 6 \<Longrightarrow> listen_read IPS (Inr (buffer, a)) s = s"
  by (simp add: listen_read_def listen_body_short)

text \<open>
  Claim C1: a datagram shorter than 7 bytes is dropped silently, with nothing put on the
  queue and no change of the table, and the loop goes on. The guard of the loop tests
  for fewer than 6 bytes (\<open>listen_read_short\<close> above), so a datagram of exactly 6 bytes
  passes it and the index expression for byte 6 panics: on the 6 bytes
  \<open>01 02 03 04 05 06\<close> the body of the loop ends in \<open>Panic\<close> and the listener, started in
  the state \<open>Initialize\<close>, is left \<open>Panicked\<close> instead of in its loop.
\<close>

theorem listen_six_byte_datagram_panics:
  "listen_body dotted (Inr ([1, 2, 3, 4, 5, 6], \<lparr>addr_IP = [10, 0, 0, 5], addr_Port = 1234\<rparr>)) = Panic
   \<and> listen_read dotted (Inr ([1, 2, 3, 4, 5, 6], \<lparr>addr_IP = [10, 0, 0, 5], addr_Port = 1234\<rparr>)) Initialize
       = Initialize\<lparr>listener := Panicked\<rparr>"
  by (simp add: listen_read_def listen_body_six Initialize_def)

lemma range_order_singleton:
  assumes "range_order tbl ks" "dom tbl = {k}"
  shows "ks = [k]"
proof -
  from assms have d: "distinct ks" and s: "set ks = {k}" by (simp_all add: range_order_def)
  then have "length ks = card {k}" using distinct_card by metis
  then have "length ks = 1" by simp
  then obtain x where "ks = [x]" by (cases ks) auto
  with s show ?thesis by simp
qed

lemma scenario_table:
  "discoverlist (run dotted [Read (Inr ([1, 2, 3, 4, 5, 6, 2], \<lparr>addr_IP = [10, 0, 0, 5], addr_Port = 1234\<rparr>)), Receive] Initialize)
    = [''01:02:03:04:05:06'' \<mapsto> \<lparr>SourceIP = ''10.0.0.5'', Port = 1234, MacAddress = [1, 2, 3, 4, 5, 6], DeviceType = 2\<rparr>]"
  by (simp add: listen_read_def listen_body_decode Initialize_def capacity_def update_receive_def
        update_step_def hex_byte_def hexDigit_def decimal.simps)

text \<open>
  Claim C5: for a datagram of at least 7 bytes, the packet sent on the channel has bytes
  0 to 5 as hardware address, byte 6 as device type, and the sender's IP and port as
  source; the bytes after byte 6 play no part. The datagram \<open>01 02 03 04 05 06 02\<close> from
  \<open>10.0.0.5:1234\<close>, read and then taken by the writer, leaves the table with the one key
  \<open>01:02:03:04:05:06\<close>, device type 2 and source address \<open>10.0.0.5\<close>, and the manifest
  built from it, in whatever order the table is visited, has one entry, whose
  \<open>__device_type\<close> is \<open>2\<close> and whose \<open>instance\<close> is \<open>10.0.0.5\<close>.
\<close>

theorem datagram_decoded_and_published:
  "(7 \<le> length buffer \<longrightarrow>
      listen_body IPS (Inr (buffer, udpaddr)) =
        Send \<lparr>SourceIP = IPS (addr_IP udpaddr), Port = addr_Port udpaddr,
              MacAddress = take 6 buffer, DeviceType = uint (buffer ! 6)\<rparr>
      \<and> listen_body IPS (Inr (take 7 buffer, udpaddr)) = listen_body IPS (Inr (buffer, udpaddr)))
   \<and> (let tbl = discoverlist (run dotted
                   [Read (Inr ([1, 2, 3, 4, 5, 6, 2], \<lparr>addr_IP = [10, 0, 0, 5], addr_Port = 1234\<rparr>)),
                    Receive] Initialize)
      in tbl = [''01:02:03:04:05:06'' \<mapsto>
                  \<lparr>SourceIP = ''10.0.0.5'', Port = 1234, MacAddress = [1, 2, 3, 4, 5, 6], DeviceType = 2\<rparr>]
         \<and> (\<forall>ks. range_order tbl ks \<longrightarrow>
               (\<exists>e. Discover_targetlist LocalAddress ks tbl = Some [e]
                  \<and> map_of (Labels e) ''__device_type'' = Some ''2''
                  \<and> map_of (Labels e) ''instance'' = Some ''10.0.0.5''
                  \<and> discoverHandler q LocalAddress ks tbl
                      = Manifest 200 ''application/json'' (json_array [json_TargetsEntry q e]))))"
proof -
  have dec: "7 \<le> length buffer \<longrightarrow>
      listen_body IPS (Inr (buffer, udpaddr)) =
        Send \<lparr>SourceIP = IPS (addr_IP udpaddr), Port = addr_Port udpaddr,
              MacAddress = take 6 buffer, DeviceType = uint (buffer ! 6)\<rparr>
      \<and> listen_body IPS (Inr (take 7 buffer, udpaddr)) = listen_body IPS (Inr (buffer, udpaddr))"
  proof
    assume len: "7 \<le> length buffer"
    then have "7 \<le> length (take 7 buffer)" by simp
    from listen_body_decode [OF this, of IPS udpaddr] listen_body_decode [OF len, of IPS udpaddr]
    show "listen_body IPS (Inr (buffer, udpaddr)) =
        Send \<lparr>SourceIP = IPS (addr_IP udpaddr), Port = addr_Port udpaddr,
              MacAddress = take 6 buffer, DeviceType = uint (buffer ! 6)\<rparr>
      \<and> listen_body IPS (Inr (take 7 buffer, udpaddr)) = listen_body IPS (Inr (buffer, udpaddr))"
      by simp
  qed
  define p where "p = \<lparr>SourceIP = ''10.0.0.5'', Port = 1234, MacAddress = [1, 2, 3, 4, 5, 6::byte], DeviceType = 2\<rparr>"
  define tbl where "tbl = [''01:02:03:04:05:06'' \<mapsto> p]"
  have pub: "\<exists>e. Discover_targetlist LocalAddress ks tbl = Some [e]
                  \<and> map_of (Labels e) ''__device_type'' = Some ''2''
                  \<and> map_of (Labels e) ''instance'' = Some ''10.0.0.5''
                  \<and> discoverHandler q LocalAddress ks tbl
                      = Manifest 200 ''application/json'' (json_array [json_TargetsEntry q e])"
    if ro: "range_order tbl ks" for ks
  proof -
    have "dom tbl = {''01:02:03:04:05:06''}" by (simp add: tbl_def)
    with ro have ks: "ks = [''01:02:03:04:05:06'']" by (rule range_order_singleton)
    have tl: "Discover_targetlist LocalAddress ks tbl = Some [Discover_entry LocalAddress ''01:02:03:04:05:06'' p]"
      by (simp add: Discover_targetlist_eq ks tbl_def map_index_def)
    have "Sprintf_d (DeviceType p) = ''2''" by (simp add: p_def Sprintf_d_def decimal.simps)
    then have l1: "map_of (Labels (Discover_entry LocalAddress ''01:02:03:04:05:06'' p)) ''__device_type'' = Some ''2''"
      by (simp add: labels_of_entry)
    have l2: "map_of (Labels (Discover_entry LocalAddress ''01:02:03:04:05:06'' p)) ''instance'' = Some ''10.0.0.5''"
      by (simp add: labels_of_entry p_def)
    have h: "discoverHandler q LocalAddress ks tbl
       = Manifest 200 ''application/json'' (json_array [json_TargetsEntry q (Discover_entry LocalAddress ''01:02:03:04:05:06'' p)])"
      by (simp add: discoverHandler_def Discover_def tl json_Marshal_def)
    from tl l1 l2 h show ?thesis by blast
  qed
  from dec pub show ?thesis
    unfolding scenario_table Let_def tbl_def p_def by blast
qed

theorem datagram_decoded_and_published_witness:
  "7 \<le> length [1, 2, 3, 4, 5, 6, 2, 0xAA, 0xBB :: byte]
   \<and> listen_body dotted (Inr ([1, 2, 3, 4, 5, 6, 2, 0xAA, 0xBB], \<lparr>addr_IP = [10, 0, 0, 5], addr_Port = 1234\<rparr>))
       = Send \<lparr>SourceIP = ''10.0.0.5'', Port = 1234, MacAddress = [1, 2, 3, 4, 5, 6], DeviceType = 2\<rparr>
   \<and> range_order [''01:02:03:04:05:06'' \<mapsto>
                  \<lparr>SourceIP = ''10.0.0.5'', Port = 1234, MacAddress = [1, 2, 3, 4, 5, 6], DeviceType = 2\<rparr>]
         [''01:02:03:04:05:06'']
   \<and> (\<exists>e. Discover_targetlist ''192.168.1.10:9452'' [''01:02:03:04:05:06'']
              [''01:02:03:04:05:06'' \<mapsto>
                  \<lparr>SourceIP = ''10.0.0.5'', Port = 1234, MacAddress = [1, 2, 3, 4, 5, 6], DeviceType = 2\<rparr>]
            = Some [e]
          \<and> map_of (Labels e) ''__device_type'' = Some ''2''
          \<and> map_of (Labels e) ''instance'' = Some ''10.0.0.5'')"
proof -
  have len: "7 \<le> length [1, 2, 3, 4, 5, 6, 2, 0xAA, 0xBB :: byte]" by simp
  have ro: "range_order [''01:02:03:04:05:06'' \<mapsto>
                  \<lparr>SourceIP = ''10.0.0.5'', Port = 1234, MacAddress = [1, 2, 3, 4, 5, 6], DeviceType = 2\<rparr>]
         [''01:02:03:04:05:06'']"
    by (simp add: range_order_def)
  note inst = datagram_decoded_and_published
    [of "[1, 2, 3, 4, 5, 6, 2, 0xAA, 0xBB]" dotted "\<lparr>addr_IP = [10, 0, 0, 5], addr_Port = 1234\<rparr>"
        "''192.168.1.10:9452''" quoted]
  from inst len have a: "listen_body dotted (Inr ([1, 2, 3, 4, 5, 6, 2, 0xAA, 0xBB], \<lparr>addr_IP = [10, 0, 0, 5], addr_Port = 1234\<rparr>))
       = Send \<lparr>SourceIP = ''10.0.0.5'', Port = 1234, MacAddress = [1, 2, 3, 4, 5, 6], DeviceType = 2\<rparr>"
    by (simp add: decimal.simps)
  from inst ro have b: "\<exists>e. Discover_targetlist ''192.168.1.10:9452'' [''01:02:03:04:05:06'']
              [''01:02:03:04:05:06'' \<mapsto>
                  \<lparr>SourceIP = ''10.0.0.5'', Port = 1234, MacAddress = [1, 2, 3, 4, 5, 6], DeviceType = 2\<rparr>]
            = Some [e]
          \<and> map_of (Labels e) ''__device_type'' = Some ''2''
          \<and> map_of (Labels e) ''instance'' = Some ''10.0.0.5''"
    unfolding Let_def scenario_table by blast
  from len a ro b show ?thesis by blast
qed

lemma table_inv_one_key:
  assumes "table_inv tbl" "tbl k = Some r" "tbl k' = Some r'" "MacAddress r = MacAddress r'"
  shows "k = k'"
  using assms unfolding table_inv_def by metis

text \<open>
  Claim C6: the table keeps the last packet written for a hardware address. Two packets
  with the same hardware address, stored one after the other, leave what storing the
  second alone leaves: its record under its key, the other keys as they were. So no two
  keys of a table built from the empty one hold records of the same hardware address.
  Storing the same packet twice leaves what storing it once leaves.
\<close>

theorem update_last_write_wins:
  "(MacAddress p1 = MacAddress p2 \<longrightarrow>
      update tbl [p1, p2] = update tbl [p2]
      \<and> update tbl [p1, p2] (HardwareAddr_String (MacAddress p2)) = Some p2
      \<and> dom (update tbl [p1, p2]) = insert (HardwareAddr_String (MacAddress p2)) (dom tbl))
   \<and> update tbl [p, p] = update tbl [p]
   \<and> (\<forall>k k' r r'. update Map.empty msgs k = Some r \<and> update Map.empty msgs k' = Some r'
          \<and> MacAddress r = MacAddress r' \<longrightarrow> k = k')"
proof (intro conjI impI allI)
  assume "MacAddress p1 = MacAddress p2"
  then show "update tbl [p1, p2] = update tbl [p2]"
    by (simp add: update_def update_step_def)
next
  show "update tbl [p1, p2] (HardwareAddr_String (MacAddress p2)) = Some p2"
    by (simp add: update_def update_step_def)
next
  assume "MacAddress p1 = MacAddress p2"
  then show "dom (update tbl [p1, p2]) = insert (HardwareAddr_String (MacAddress p2)) (dom tbl)"
    by (simp add: update_def update_step_def)
next
  show "update tbl [p, p] = update tbl [p]"
    by (simp add: update_def update_step_def)
next
  fix k k' r r'
  assume a: "update Map.empty msgs k = Some r \<and> update Map.empty msgs k' = Some r'
          \<and> MacAddress r = MacAddress r'"
  have "table_inv (update Map.empty msgs)"
    by (rule table_inv_update [OF table_inv_empty])
  with a show "k = k'" by (blast intro: table_inv_one_key)
qed

theorem update_last_write_wins_witness:
  "update Map.empty
     [\<lparr>SourceIP = ''10.0.0.5'', Port = 1234, MacAddress = [1, 2, 3, 4, 5, 6], DeviceType = 2\<rparr>,
      \<lparr>SourceIP = ''10.0.0.9'', Port = 4321, MacAddress = [1, 2, 3, 4, 5, 6], DeviceType = 2\<rparr>]
   = [''01:02:03:04:05:06'' \<mapsto>
        \<lparr>SourceIP = ''10.0.0.9'', Port = 4321, MacAddress = [1, 2, 3, 4, 5, 6], DeviceType = 2\<rparr>]
   \<and> dom (update Map.empty
        [\<lparr>SourceIP = ''10.0.0.5'', Port = 1234, MacAddress = [1, 2, 3, 4, 5, 6], DeviceType = 2\<rparr>,
         \<lparr>SourceIP = ''10.0.0.9'', Port = 4321, MacAddress = [1, 2, 3, 4, 5, 6], DeviceType = 2\<rparr>])
     = {''01:02:03:04:05:06''}"
proof -
  define p1 where "p1 = \<lparr>SourceIP = ''10.0.0.5'', Port = 1234, MacAddress = [1, 2, 3, 4, 5, 6 :: byte], DeviceType = 2\<rparr>"
  define p2 where "p2 = \<lparr>SourceIP = ''10.0.0.9'', Port = 4321, MacAddress = [1, 2, 3, 4, 5, 6 :: byte], DeviceType = 2\<rparr>"
  note inst = update_last_write_wins [of p1 p2 Map.empty p1 "[p1, p2]"]
  have same: "MacAddress p1 = MacAddress p2" by (simp add: p1_def p2_def)
  have key: "HardwareAddr_String (MacAddress p2) = ''01:02:03:04:05:06''"
    by (simp add: p2_def hex_byte_def hexDigit_def)
  have one: "update Map.empty [p2] = [''01:02:03:04:05:06'' \<mapsto> p2]"
    by (simp add: update_def update_step_def key)
  from inst same have a: "update Map.empty [p1, p2] = [''01:02:03:04:05:06'' \<mapsto> p2]"
    by (simp add: one)
  from inst same have b: "dom (update Map.empty [p1, p2]) = {''01:02:03:04:05:06''}"
    by (simp add: key one)
  from a b show ?thesis unfolding p1_def p2_def by blast
qed

text \<open>
  Claim C8: for a hardware-address string that is not a key of the table,
  \<open>TargetByMacaddr\<close> returns the empty string (there is no error result) and the table
  is as before; for a key of the table it returns the source address of the record
  stored under it.
\<close>

theorem TargetByMacaddr_lookup:
  "(tbl k = None \<longrightarrow> TargetByMacaddr k tbl = ([], tbl))
   \<and> (tbl k' = Some p \<longrightarrow> TargetByMacaddr k' tbl = (SourceIP p, tbl))"
  by (simp add: TargetByMacaddr_def map_index_def zero_Packet_def)

theorem TargetByMacaddr_lookup_witness:
  "TargetByMacaddr ''aa:bb:cc:dd:ee:ff''
     [''01:02:03:04:05:06'' \<mapsto>
        \<lparr>SourceIP = ''10.0.0.5'', Port = 1234, MacAddress = [1, 2, 3, 4, 5, 6], DeviceType = 2\<rparr>]
   = ([], [''01:02:03:04:05:06'' \<mapsto>
        \<lparr>SourceIP = ''10.0.0.5'', Port = 1234, MacAddress = [1, 2, 3, 4, 5, 6], DeviceType = 2\<rparr>])
   \<and> TargetByMacaddr ''01:02:03:04:05:06''
     [''01:02:03:04:05:06'' \<mapsto>
        \<lparr>SourceIP = ''10.0.0.5'', Port = 1234, MacAddress = [1, 2, 3, 4, 5, 6], DeviceType = 2\<rparr>]
   = (''10.0.0.5'', [''01:02:03:04:05:06'' \<mapsto>
        \<lparr>SourceIP = ''10.0.0.5'', Port = 1234, MacAddress = [1, 2, 3, 4, 5, 6], DeviceType = 2\<rparr>])"
  using TargetByMacaddr_lookup
    [of "[''01:02:03:04:05:06'' \<mapsto>
        \<lparr>SourceIP = ''10.0.0.5'', Port = 1234, MacAddress = [1, 2, 3, 4, 5, 6], DeviceType = 2\<rparr>]"
        "''aa:bb:cc:dd:ee:ff''" "''01:02:03:04:05:06''"
        "\<lparr>SourceIP = ''10.0.0.5'', Port = 1234, MacAddress = [1, 2, 3, 4, 5, 6], DeviceType = 2\<rparr>"]
  by simp

lemma entry_of_targetlist:
  assumes "Discover_targetlist la ks tbl = Some es" "e \<in> set es"
  shows "\<exists>k \<in> set ks. e = Discover_entry la k (map_index tbl k)"
  using assms by (auto simp: Discover_targetlist_eq split: if_splits)

text \<open>
  Claim C9: every key of the table is the colon-separated hexadecimal rendering of the
  hardware address of the record stored under it. The empty table has the property,
  every store of the writer keeps it, and so has every table the two goroutines reach
  from the start. Hence in every entry of a manifest built from such a table the label
  \<open>__mac_address\<close> is a key of the table and the label \<open>__metrics_path__\<close> is
  \<open>/device_by_mac/\<close> followed by that same text.
\<close>

theorem table_keys_render_addresses:
  "table_inv Map.empty
   \<and> (table_inv tbl \<longrightarrow> table_inv (update_step tbl msg))
   \<and> table_inv (discoverlist (run IPS evs Initialize))
   \<and> (table_inv tbl \<and> range_order tbl ks \<and> Discover_targetlist LocalAddress ks tbl = Some es
        \<and> e \<in> set es \<longrightarrow>
        (\<exists>mac rec. tbl mac = Some rec
            \<and> mac = HardwareAddr_String (MacAddress rec)
            \<and> map_of (Labels e) ''__mac_address'' = Some mac
            \<and> map_of (Labels e) ''__metrics_path__'' = Some (''/device_by_mac/'' @ mac)))"
proof (intro conjI impI)
  show "table_inv Map.empty" by (rule table_inv_empty)
next
  assume "table_inv tbl"
  then show "table_inv (update_step tbl msg)" by (rule table_inv_update_step)
next
  have "table_inv (discoverlist Initialize)" by (simp add: Initialize_def table_inv_empty)
  then show "table_inv (discoverlist (run IPS evs Initialize))" by (rule table_inv_run)
next
  assume a: "table_inv tbl \<and> range_order tbl ks \<and> Discover_targetlist LocalAddress ks tbl = Some es
        \<and> e \<in> set es"
  then obtain k where k: "k \<in> set ks" and e: "e = Discover_entry LocalAddress k (map_index tbl k)"
    using entry_of_targetlist by blast
  from a k have "k \<in> dom tbl" by (simp add: range_order_def)
  then obtain rec where rec: "tbl k = Some rec" by blast
  with a have mac: "k = HardwareAddr_String (MacAddress rec)" by (simp add: table_inv_def)
  from rec have "map_index tbl k = rec" by (simp add: map_index_def)
  with e have "map_of (Labels e) ''__mac_address'' = Some k"
    and "map_of (Labels e) ''__metrics_path__'' = Some (''/device_by_mac/'' @ HardwareAddr_String (MacAddress rec))"
    by (simp_all add: labels_of_entry)
  with rec mac show "\<exists>mac rec. tbl mac = Some rec
            \<and> mac = HardwareAddr_String (MacAddress rec)
            \<and> map_of (Labels e) ''__mac_address'' = Some mac
            \<and> map_of (Labels e) ''__metrics_path__'' = Some (''/device_by_mac/'' @ mac)"
    by metis
qed

theorem table_keys_render_addresses_witness:
  "table_inv (update_step Map.empty
       \<lparr>SourceIP = ''10.0.0.5'', Port = 1234, MacAddress = [1, 2, 3, 4, 5, 6], DeviceType = 2\<rparr>)
   \<and> range_order (update_step Map.empty
       \<lparr>SourceIP = ''10.0.0.5'', Port = 1234, MacAddress = [1, 2, 3, 4, 5, 6], DeviceType = 2\<rparr>)
       [''01:02:03:04:05:06'']
   \<and> map_of (Labels (Discover_entry ''192.168.1.10:9452'' ''01:02:03:04:05:06''
         \<lparr>SourceIP = ''10.0.0.5'', Port = 1234, MacAddress = [1, 2, 3, 4, 5, 6], DeviceType = 2\<rparr>))
       ''__metrics_path__'' = Some ''/device_by_mac/01:02:03:04:05:06''"
proof -
  define p where "p = \<lparr>SourceIP = ''10.0.0.5'', Port = 1234, MacAddress = [1, 2, 3, 4, 5, 6 :: byte], DeviceType = 2\<rparr>"
  define t where "t = update_step Map.empty p"
  define e where "e = Discover_entry ''192.168.1.10:9452'' ''01:02:03:04:05:06'' p"
  have key: "HardwareAddr_String (MacAddress p) = ''01:02:03:04:05:06''"
    by (simp add: p_def hex_byte_def hexDigit_def)
  have t: "t = [''01:02:03:04:05:06'' \<mapsto> p]" by (simp add: t_def update_step_def key)
  from table_keys_render_addresses [of Map.empty p] have inv: "table_inv t"
    unfolding t_def by blast
  have ro: "range_order t [''01:02:03:04:05:06'']" by (simp add: t range_order_def)
  have tl: "Discover_targetlist ''192.168.1.10:9452'' [''01:02:03:04:05:06''] t = Some [e]"
    by (simp add: Discover_targetlist_eq t map_index_def e_def)
  have mem: "e \<in> set [e]" by simp
  from table_keys_render_addresses [of t p dotted "[]" "[''01:02:03:04:05:06'']" "''192.168.1.10:9452''" "[e]" e]
    inv ro tl mem
  obtain mac where "t mac \<noteq> None" and "map_of (Labels e) ''__metrics_path__'' = Some (''/device_by_mac/'' @ mac)"
    by auto
  then have "map_of (Labels e) ''__metrics_path__'' = Some ''/device_by_mac/01:02:03:04:05:06''"
    by (auto simp: t split: if_splits)
  with inv ro show ?thesis unfolding t_def e_def p_def by blast
qed

lemma range_order_empty: "range_order Map.empty ks \<longleftrightarrow> ks = []"
  by (auto simp: range_order_def)

lemma range_order_pair:
  assumes "range_order tbl ks" "card (dom tbl) = 2"
  shows "\<exists>k1 k2. ks = [k1, k2] \<and> k1 \<noteq> k2 \<and> dom tbl = {k1, k2}"
proof -
  from assms have d: "distinct ks" and s: "set ks = dom tbl" by (simp_all add: range_order_def)
  from d have "length ks = card (set ks)" by (simp add: distinct_card)
  with s assms have "length ks = 2" by simp
  then obtain k1 k2 where ks: "ks = [k1, k2]"
    by (cases ks; cases "tl ks") auto
  with d s show ?thesis by auto
qed

text \<open>
  Claim C2, as amended. On the empty table the loop of \<open>Discover\<close> appends nothing, the
  slice it marshals is still \<^verbatim>\<open>nil\<close>, and the bytes returned are the JSON text \<^verbatim>\<open>null\<close>,
  not an empty array. On a table of two devices the bytes are a JSON array of exactly two
  entries, one for each key in the order the table is visited, and the label
  \<open>__mac_address\<close> of each entry is its key.
\<close>

theorem Discover_null_or_entries:
  "(range_order Map.empty ks0 \<longrightarrow> Discover q LocalAddress ks0 Map.empty = Inr ''null'')
   \<and> (range_order tbl ks \<and> card (dom tbl) = 2 \<longrightarrow>
        (\<exists>k1 k2 e1 e2. ks = [k1, k2] \<and> k1 \<noteq> k2 \<and> dom tbl = {k1, k2}
           \<and> Discover_targetlist LocalAddress ks tbl = Some [e1, e2]
           \<and> Discover q LocalAddress ks tbl
                = Inr (json_array [json_TargetsEntry q e1, json_TargetsEntry q e2])
           \<and> map_of (Labels e1) ''__mac_address'' = Some k1
           \<and> map_of (Labels e2) ''__mac_address'' = Some k2))"
proof (intro conjI impI)
  assume "range_order Map.empty ks0"
  then have "ks0 = []" by (simp add: range_order_empty)
  then show "Discover q LocalAddress ks0 Map.empty = Inr ''null''"
    by (simp add: Discover_def Discover_targetlist_eq json_Marshal_def)
next
  assume a: "range_order tbl ks \<and> card (dom tbl) = 2"
  then obtain k1 k2 where ks: "ks = [k1, k2]" and ne: "k1 \<noteq> k2" and d: "dom tbl = {k1, k2}"
    using range_order_pair by blast
  define e1 where "e1 = Discover_entry LocalAddress k1 (map_index tbl k1)"
  define e2 where "e2 = Discover_entry LocalAddress k2 (map_index tbl k2)"
  have tl: "Discover_targetlist LocalAddress ks tbl = Some [e1, e2]"
    by (simp add: Discover_targetlist_eq ks e1_def e2_def)
  then have js: "Discover q LocalAddress ks tbl
                = Inr (json_array [json_TargetsEntry q e1, json_TargetsEntry q e2])"
    by (simp add: Discover_def json_Marshal_def)
  have l1: "map_of (Labels e1) ''__mac_address'' = Some k1"
    and l2: "map_of (Labels e2) ''__mac_address'' = Some k2"
    by (simp_all add: e1_def e2_def labels_of_entry)
  from ks ne d tl js l1 l2
  show "\<exists>k1 k2 e1 e2. ks = [k1, k2] \<and> k1 \<noteq> k2 \<and> dom tbl = {k1, k2}
           \<and> Discover_targetlist LocalAddress ks tbl = Some [e1, e2]
           \<and> Discover q LocalAddress ks tbl
                = Inr (json_array [json_TargetsEntry q e1, json_TargetsEntry q e2])
           \<and> map_of (Labels e1) ''__mac_address'' = Some k1
           \<and> map_of (Labels e2) ''__mac_address'' = Some k2"
    by blast
qed

theorem Discover_null_or_entries_witness:
  "range_order Map.empty []
   \<and> Discover quoted ''192.168.1.10:9452'' [] Map.empty = Inr ''null''
   \<and> range_order
        [''01:02:03:04:05:06'' \<mapsto>
           \<lparr>SourceIP = ''10.0.0.5'', Port = 1234, MacAddress = [1, 2, 3, 4, 5, 6], DeviceType = 2\<rparr>,
         ''0a:0b:0c:0d:0e:0f'' \<mapsto>
           \<lparr>SourceIP = ''10.0.0.7'', Port = 4321, MacAddress = [10, 11, 12, 13, 14, 15], DeviceType = 1\<rparr>]
        [''0a:0b:0c:0d:0e:0f'', ''01:02:03:04:05:06'']
   \<and> (\<exists>e1 e2.
         Discover_targetlist ''192.168.1.10:9452'' [''0a:0b:0c:0d:0e:0f'', ''01:02:03:04:05:06'']
           [''01:02:03:04:05:06'' \<mapsto>
              \<lparr>SourceIP = ''10.0.0.5'', Port = 1234, MacAddress = [1, 2, 3, 4, 5, 6], DeviceType = 2\<rparr>,
            ''0a:0b:0c:0d:0e:0f'' \<mapsto>
              \<lparr>SourceIP = ''10.0.0.7'', Port = 4321, MacAddress = [10, 11, 12, 13, 14, 15], DeviceType = 1\<rparr>]
           = Some [e1, e2]
         \<and> map_of (Labels e1) ''__mac_address'' = Some ''0a:0b:0c:0d:0e:0f''
         \<and> map_of (Labels e2) ''__mac_address'' = Some ''01:02:03:04:05:06'')"
proof -
  define t :: Packetlist where "t =
        [''01:02:03:04:05:06'' \<mapsto>
           \<lparr>SourceIP = ''10.0.0.5'', Port = 1234, MacAddress = [1, 2, 3, 4, 5, 6], DeviceType = 2\<rparr>,
         ''0a:0b:0c:0d:0e:0f'' \<mapsto>
           \<lparr>SourceIP = ''10.0.0.7'', Port = 4321, MacAddress = [10, 11, 12, 13, 14, 15], DeviceType = 1\<rparr>]"
  have ro0: "range_order Map.empty []" by (simp add: range_order_def)
  have ro: "range_order t [''0a:0b:0c:0d:0e:0f'', ''01:02:03:04:05:06'']"
    by (auto simp: range_order_def t_def)
  have c: "card (dom t) = 2" by (simp add: t_def)
  note inst = Discover_null_or_entries
    [of "[]" quoted "''192.168.1.10:9452''" t "[''0a:0b:0c:0d:0e:0f'', ''01:02:03:04:05:06'']"]
  from inst ro0 have a: "Discover quoted ''192.168.1.10:9452'' [] Map.empty = Inr ''null''"
    by blast
  from inst ro c have b: "\<exists>e1 e2.
         Discover_targetlist ''192.168.1.10:9452'' [''0a:0b:0c:0d:0e:0f'', ''01:02:03:04:05:06''] t
           = Some [e1, e2]
         \<and> map_of (Labels e1) ''__mac_address'' = Some ''0a:0b:0c:0d:0e:0f''
         \<and> map_of (Labels e2) ''__mac_address'' = Some ''01:02:03:04:05:06''"
    by auto
  from ro0 a ro b show ?thesis unfolding t_def by blast
qed

theorem Discover_empty_table_counterexample:
  "range_order Map.empty []
   \<and> Discover quoted ''192.168.1.10:9452'' [] Map.empty \<noteq> Inr ''[]''"
  by (simp add: range_order_def Discover_def Discover_targetlist_def json_Marshal_def)

section \<open>The claims about the scrape handlers\<close>

lemma kind_of_cases:
  "kind_of err \<in> {ErrorSocket, ErrorTimeout, ErrorParsingValue}"
  "kind_of err = ErrorSocket \<longleftrightarrow> Contains err ''unable to connect with target''"
  "kind_of err = ErrorTimeout \<longleftrightarrow>
     \<not> Contains err ''unable to connect with target'' \<and> Contains err ''i/o timeout''"
  "kind_of err = ErrorParsingValue \<longleftrightarrow>
     \<not> Contains err ''unable to connect with target'' \<and> \<not> Contains err ''i/o timeout''"
  by (simp_all add: kind_of_def)

lemma Values_Get_device_request: "Values_Get (Query (device_request t)) ''target'' = t"
  by (simp add: device_request_def Values_Get_def)

text \<open>
  Claim C3: when the device client fails, \<open>scrapeHandler\<close> picks exactly one of the
  three kinds \<open>ErrorSocket\<close>, \<open>ErrorTimeout\<close>, \<open>ErrorParsingValue\<close> from the text of the
  error: the first if the text contains \<open>unable to connect with target\<close>, else the second
  if it contains \<open>i/o timeout\<close>, else the third. It increments the request counter of the
  target and that kind, leaves every other request counter as it was, and answers with
  status 500 and the message \<open>failed to scrape target '<target>': <error>\<close>.
\<close>

theorem scrape_failure_classified:
  "Values_Get (Query r) ''target'' = target \<and> target \<noteq> []
     \<and> fst (exporter_Scrape env target (world st)) = Inl err \<longrightarrow>
     kind_of err \<in> {ErrorSocket, ErrorTimeout, ErrorParsingValue}
     \<and> (kind_of err = ErrorSocket \<longleftrightarrow> Contains err ''unable to connect with target'')
     \<and> (kind_of err = ErrorTimeout \<longleftrightarrow>
          \<not> Contains err ''unable to connect with target'' \<and> Contains err ''i/o timeout'')
     \<and> (kind_of err = ErrorParsingValue \<longleftrightarrow>
          \<not> Contains err ''unable to connect with target'' \<and> \<not> Contains err ''i/o timeout'')
     \<and> fst (scrapeHandler env r st)
          = Error (''failed to scrape target '' @ squote # target @ squote # '': '' @ err) 500
     \<and> mystromRequestsCounterVec (snd (scrapeHandler env r st)) (target, status_String env (kind_of err))
          = mystromRequestsCounterVec st (target, status_String env (kind_of err)) + 1
     \<and> (\<forall>labels. labels \<noteq> (target, status_String env (kind_of err)) \<longrightarrow>
          mystromRequestsCounterVec (snd (scrapeHandler env r st)) labels
            = mystromRequestsCounterVec st labels)"
proof
  assume a: "Values_Get (Query r) ''target'' = target \<and> target \<noteq> []
     \<and> fst (exporter_Scrape env target (world st)) = Inl err"
  obtain w where w: "exporter_Scrape env target (world st) = (Inl err, w)"
    using a by (cases "exporter_Scrape env target (world st)") simp
  with a have h: "scrapeHandler env r st =
     (Error (''failed to scrape target '' @ squote # target @ squote # '': '' @ err) 500,
      st\<lparr>world := w,
         mystromRequestsCounterVec :=
           Inc (mystromRequestsCounterVec st) (target, status_String env (kind_of err))\<rparr>)"
    by (simp add: scrapeHandler_failure)
  show "kind_of err \<in> {ErrorSocket, ErrorTimeout, ErrorParsingValue}
     \<and> (kind_of err = ErrorSocket \<longleftrightarrow> Contains err ''unable to connect with target'')
     \<and> (kind_of err = ErrorTimeout \<longleftrightarrow>
          \<not> Contains err ''unable to connect with target'' \<and> Contains err ''i/o timeout'')
     \<and> (kind_of err = ErrorParsingValue \<longleftrightarrow>
          \<not> Contains err ''unable to connect with target'' \<and> \<not> Contains err ''i/o timeout'')
     \<and> fst (scrapeHandler env r st)
          = Error (''failed to scrape target '' @ squote # target @ squote # '': '' @ err) 500
     \<and> mystromRequestsCounterVec (snd (scrapeHandler env r st)) (target, status_String env (kind_of err))
          = mystromRequestsCounterVec st (target, status_String env (kind_of err)) + 1
     \<and> (\<forall>labels. labels \<noteq> (target, status_String env (kind_of err)) \<longrightarrow>
          mystromRequestsCounterVec (snd (scrapeHandler env r st)) labels
            = mystromRequestsCounterVec st labels)"
    unfolding h using kind_of_cases [of err] by (simp add: Inc_def)
qed

theorem scrape_failure_classified_witness:
  "fst (scrapeHandler
          \<lparr>status_String = stringer,
           exporter_Scrape =
             counting_client (\<lambda>t. Inl ''Get http://10.0.0.5/report: dial tcp 10.0.0.5:80: i/o timeout'' :: string + unit),
           elapsed = 5\<rparr>
          (device_request ''10.0.0.5'') fresh_state)
     = Error (''failed to scrape target '' @ squote # ''10.0.0.5'' @ squote
                # '': Get http://10.0.0.5/report: dial tcp 10.0.0.5:80: i/o timeout'') 500
   \<and> mystromRequestsCounterVec (snd (scrapeHandler
          \<lparr>status_String = stringer,
           exporter_Scrape =
             counting_client (\<lambda>t. Inl ''Get http://10.0.0.5/report: dial tcp 10.0.0.5:80: i/o timeout'' :: string + unit),
           elapsed = 5\<rparr>
          (device_request ''10.0.0.5'') fresh_state))
       (''10.0.0.5'', ''ErrorTimeout'') = 1
   \<and> mystromRequestsCounterVec (snd (scrapeHandler
          \<lparr>status_String = stringer,
           exporter_Scrape =
             counting_client (\<lambda>t. Inl ''Get http://10.0.0.5/report: dial tcp 10.0.0.5:80: i/o timeout'' :: string + unit),
           elapsed = 5\<rparr>
          (device_request ''10.0.0.5'') fresh_state))
       (''10.0.0.5'', ''ErrorParsingValue'') = 0"
proof -
  define env :: "(unit, string list) scrape_env" where "env = \<lparr>status_String = stringer,
           exporter_Scrape =
             counting_client (\<lambda>t. Inl ''Get http://10.0.0.5/report: dial tcp 10.0.0.5:80: i/o timeout''),
           elapsed = 5\<rparr>"
  have t: "Values_Get (Query (device_request ''10.0.0.5'')) ''target'' = ''10.0.0.5''"
    by (rule Values_Get_device_request)
  have e: "fst (exporter_Scrape env ''10.0.0.5'' (world fresh_state))
             = Inl ''Get http://10.0.0.5/report: dial tcp 10.0.0.5:80: i/o timeout''"
    by (simp add: env_def counting_client_def)
  have k: "kind_of ''Get http://10.0.0.5/report: dial tcp 10.0.0.5:80: i/o timeout'' = ErrorTimeout"
    by (simp add: kind_of_def)
  have s: "status_String env = stringer" by (simp add: env_def)
  from scrape_failure_classified [where r = "device_request ''10.0.0.5''" and target = "''10.0.0.5''"
      and env = env and st = fresh_state
      and err = "''Get http://10.0.0.5/report: dial tcp 10.0.0.5:80: i/o timeout''"] t e
  have "fst (scrapeHandler env (device_request ''10.0.0.5'') fresh_state)
     = Error (''failed to scrape target '' @ squote # ''10.0.0.5'' @ squote
                # '': Get http://10.0.0.5/report: dial tcp 10.0.0.5:80: i/o timeout'') 500
   \<and> mystromRequestsCounterVec (snd (scrapeHandler env (device_request ''10.0.0.5'') fresh_state))
        (''10.0.0.5'', ''ErrorTimeout'') = 1
   \<and> mystromRequestsCounterVec (snd (scrapeHandler env (device_request ''10.0.0.5'') fresh_state))
        (''10.0.0.5'', ''ErrorParsingValue'') = 0"
    unfolding k s by (simp add: fresh_state_def)
  then show ?thesis unfolding env_def .
qed

lemma scrapeHandler_calls_once:
  assumes ne: "Values_Get (Query r) ''target'' \<noteq> []"
  shows "world (snd (scrapeHandler env r st))
          = snd (exporter_Scrape env (Values_Get (Query r) ''target'') (world st))
        \<and> fst (scrapeHandler env r st)
          = (case fst (exporter_Scrape env (Values_Get (Query r) ''target'') (world st)) of
               Inl err \<Rightarrow>
                 Error (''failed to scrape target '' @ squote # Values_Get (Query r) ''target''
                          @ squote # '': '' @ err) 500
             | Inr gatherer \<Rightarrow> ServeHTTP gatherer)"
proof -
  obtain res w where c: "exporter_Scrape env (Values_Get (Query r) ''target'') (world st) = (res, w)"
    by (cases "exporter_Scrape env (Values_Get (Query r) ''target'') (world st)")
  show ?thesis
  proof (cases res)
    case (Inl err)
    with c ne show ?thesis by (simp add: scrapeHandler_failure [OF refl])
  next
    case (Inr g)
    with c ne show ?thesis by (simp add: scrapeHandler_success [OF refl])
  qed
qed

text \<open>
  Claim C4: with an empty \<open>target\<close>, \<open>scrapeHandler\<close> answers at once with status 400
  and changes nothing, so the device client is not called; with any other \<open>target\<close> it
  calls the device client exactly once, for that target: what the client acts on is
  afterwards what one call for the target leaves of it, and the answer is made from the
  result of that call. With the substitute client that records its calls, the record is
  unchanged for the empty target and longer by exactly the target otherwise.
\<close>

theorem scrape_empty_target_no_call:
  "(Values_Get (Query r) ''target'' = [] \<longrightarrow>
      scrapeHandler env r st
        = (Error (squote # ''target'' @ squote # '' parameter must be specified'') 400, st))
   \<and> (Values_Get (Query r') ''target'' \<noteq> [] \<longrightarrow>
        world (snd (scrapeHandler env r' st))
          = snd (exporter_Scrape env (Values_Get (Query r') ''target'') (world st))
        \<and> fst (scrapeHandler env r' st)
          = (case fst (exporter_Scrape env (Values_Get (Query r') ''target'') (world st)) of
               Inl err \<Rightarrow>
                 Error (''failed to scrape target '' @ squote # Values_Get (Query r') ''target''
                          @ squote # '': '' @ err) 500
             | Inr gatherer \<Rightarrow> ServeHTTP gatherer))
   \<and> (exporter_Scrape cenv = counting_client answer \<longrightarrow>
        (Values_Get (Query r) ''target'' = [] \<longrightarrow>
           world (snd (scrapeHandler cenv r cst)) = world cst)
        \<and> (Values_Get (Query r') ''target'' \<noteq> [] \<longrightarrow>
           world (snd (scrapeHandler cenv r' cst)) = world cst @ [Values_Get (Query r') ''target'']))"
proof (intro conjI impI)
  assume "Values_Get (Query r) ''target'' = []"
  then show "scrapeHandler env r st
        = (Error (squote # ''target'' @ squote # '' parameter must be specified'') 400, st)"
    by (rule scrapeHandler_missing)
next
  assume "Values_Get (Query r') ''target'' \<noteq> []"
  then show "world (snd (scrapeHandler env r' st))
          = snd (exporter_Scrape env (Values_Get (Query r') ''target'') (world st))"
    and "fst (scrapeHandler env r' st)
          = (case fst (exporter_Scrape env (Values_Get (Query r') ''target'') (world st)) of
               Inl err \<Rightarrow>
                 Error (''failed to scrape target '' @ squote # Values_Get (Query r') ''target''
                          @ squote # '': '' @ err) 500
             | Inr gatherer \<Rightarrow> ServeHTTP gatherer)"
    using scrapeHandler_calls_once [of r' env st] by simp_all
next
  assume "Values_Get (Query r) ''target'' = []"
  then show "world (snd (scrapeHandler cenv r cst)) = world cst"
    by (simp add: scrapeHandler_missing)
next
  assume cc: "exporter_Scrape cenv = counting_client answer"
    and "Values_Get (Query r') ''target'' \<noteq> []"
  then have "world (snd (scrapeHandler cenv r' cst))
          = snd (exporter_Scrape cenv (Values_Get (Query r') ''target'') (world cst))"
    using scrapeHandler_calls_once [of r' cenv cst] by simp
  then show "world (snd (scrapeHandler cenv r' cst)) = world cst @ [Values_Get (Query r') ''target'']"
    by (simp add: cc counting_client_def)
qed

theorem scrape_empty_target_no_call_witness:
  "scrapeHandler
      \<lparr>status_String = stringer, exporter_Scrape = counting_client (\<lambda>t. Inr ()), elapsed = 1 / 2\<rparr>
      (device_request []) fresh_state
     = (Error (squote # ''target'' @ squote # '' parameter must be specified'') 400, fresh_state)
   \<and> world (snd (scrapeHandler
         \<lparr>status_String = stringer, exporter_Scrape = counting_client (\<lambda>t. Inr ()), elapsed = 1 / 2\<rparr>
         (device_request []) fresh_state)) = []
   \<and> world (snd (scrapeHandler
         \<lparr>status_String = stringer, exporter_Scrape = counting_client (\<lambda>t. Inr ()), elapsed = 1 / 2\<rparr>
         (device_request ''10.0.0.5'') fresh_state)) = [''10.0.0.5'']
   \<and> fst (scrapeHandler
         \<lparr>status_String = stringer, exporter_Scrape = counting_client (\<lambda>t. Inr ()), elapsed = 1 / 2\<rparr>
         (device_request ''10.0.0.5'') fresh_state) = ServeHTTP ()"
proof -
  define env :: "(unit, string list) scrape_env"
    where "env = \<lparr>status_String = stringer, exporter_Scrape = counting_client (\<lambda>t. Inr ()), elapsed = 1 / 2\<rparr>"
  have c: "exporter_Scrape env = counting_client (\<lambda>t. Inr ())" by (simp add: env_def)
  have e: "Values_Get (Query (device_request [])) ''target'' = []"
    by (rule Values_Get_device_request)
  have n: "Values_Get (Query (device_request ''10.0.0.5'')) ''target'' \<noteq> []"
    by (simp add: Values_Get_device_request)
  note inst = scrape_empty_target_no_call
    [where r = "device_request []" and r' = "device_request ''10.0.0.5''" and env = env
       and st = fresh_state and cenv = env and cst = fresh_state and answer = "\<lambda>t. Inr ()"]
  from inst e have 1: "scrapeHandler env (device_request []) fresh_state
     = (Error (squote # ''target'' @ squote # '' parameter must be specified'') 400, fresh_state)"
    by blast
  from inst c e have 2: "world (snd (scrapeHandler env (device_request []) fresh_state)) = []"
    by (simp add: fresh_state_def)
  from inst c n have 3: "world (snd (scrapeHandler env (device_request ''10.0.0.5'') fresh_state)) = [''10.0.0.5'']"
    by (simp add: fresh_state_def Values_Get_device_request counting_client_def)
  from inst n have 4: "fst (scrapeHandler env (device_request ''10.0.0.5'') fresh_state) = ServeHTTP ()"
    by (simp add: Values_Get_device_request c counting_client_def)
  from 1 2 3 4 show ?thesis unfolding env_def by blast
qed

text \<open>
  Claim C10: a request for \<open>/device_by_mac/{macaddr}\<close> whose address is not a key of the
  table gets the answer of the missing-target check, status 400, and nothing else
  happens: the lookup gives the empty string, which becomes the value of the query
  parameter \<open>target\<close>, and \<open>scrapeHandler\<close> rejects the empty target.
\<close>

theorem scrape_by_unknown_mac_bad_request:
  "tbl (string_index (Vars r) ''macaddr'') = None \<longrightarrow>
     fst (TargetByMacaddr (string_index (Vars r) ''macaddr'') tbl) = []
     \<and> Values_Get (Values_Set (Query r) ''target''
           (fst (TargetByMacaddr (string_index (Vars r) ''macaddr'') tbl))) ''target'' = []
     \<and> scrapeHandlerByMac env tbl r st
         = (Error (squote # ''target'' @ squote # '' parameter must be specified'') 400, st)"
proof
  assume a: "tbl (string_index (Vars r) ''macaddr'') = None"
  then have t: "fst (TargetByMacaddr (string_index (Vars r) ''macaddr'') tbl) = []"
    by (simp add: TargetByMacaddr_def map_index_def zero_Packet_def)
  have g: "Values_Get (Values_Set (Query r) ''target''
           (fst (TargetByMacaddr (string_index (Vars r) ''macaddr'') tbl))) ''target'' = []"
    unfolding t by (simp add: Values_Get_def Values_Set_def)
  have "scrapeHandlerByMac env tbl r st
         = (Error (squote # ''target'' @ squote # '' parameter must be specified'') 400, st)"
    unfolding scrapeHandlerByMac_def Let_def
    by (rule scrapeHandler_missing) (simp add: g)
  with t g show "fst (TargetByMacaddr (string_index (Vars r) ''macaddr'') tbl) = []
     \<and> Values_Get (Values_Set (Query r) ''target''
           (fst (TargetByMacaddr (string_index (Vars r) ''macaddr'') tbl))) ''target'' = []
     \<and> scrapeHandlerByMac env tbl r st
         = (Error (squote # ''target'' @ squote # '' parameter must be specified'') 400, st)"
    by blast
qed

theorem scrape_by_unknown_mac_bad_request_witness:
  "scrapeHandlerByMac
     \<lparr>status_String = stringer, exporter_Scrape = counting_client (\<lambda>t. Inr ()), elapsed = 1 / 2\<rparr>
     [''01:02:03:04:05:06'' \<mapsto>
        \<lparr>SourceIP = ''10.0.0.5'', Port = 1234, MacAddress = [1, 2, 3, 4, 5, 6], DeviceType = 2\<rparr>]
     (mac_request ''aa:bb:cc:dd:ee:ff'') fresh_state
   = (Error (squote # ''target'' @ squote # '' parameter must be specified'') 400, fresh_state)"
  using scrape_by_unknown_mac_bad_request
    [of "[''01:02:03:04:05:06'' \<mapsto>
        \<lparr>SourceIP = ''10.0.0.5'', Port = 1234, MacAddress = [1, 2, 3, 4, 5, 6], DeviceType = 2\<rparr>]"
        "mac_request ''aa:bb:cc:dd:ee:ff''"
        "\<lparr>status_String = stringer, exporter_Scrape = counting_client (\<lambda>t. Inr ()), elapsed = 1 / 2\<rparr>"
        fresh_state]
  by (simp add: mac_request_def string_index_def)

text \<open>
  Claim C7, as amended. A scrape that succeeds increments the request counter of the
  target and the status \<open>OK\<close> by one and adds the elapsed seconds, not one, to the
  duration counter of the target. A scrape that fails increments the request counter of
  the target and the kind of the failure by one and leaves every duration counter as it
  was. In both cases every other request counter, and the duration counter of every other
  target, is as it was.
\<close>

theorem scrape_counters_frame:
  "Values_Get (Query r) ''target'' = target \<and> target \<noteq> [] \<longrightarrow>
     (\<forall>gatherer. fst (exporter_Scrape env target (world st)) = Inr gatherer \<longrightarrow>
        mystromRequestsCounterVec (snd (scrapeHandler env r st)) (target, status_String env OK)
          = mystromRequestsCounterVec st (target, status_String env OK) + 1
        \<and> (\<forall>labels. labels \<noteq> (target, status_String env OK) \<longrightarrow>
              mystromRequestsCounterVec (snd (scrapeHandler env r st)) labels
                = mystromRequestsCounterVec st labels)
        \<and> mystromDurationCounterVec (snd (scrapeHandler env r st)) target
            = mystromDurationCounterVec st target + elapsed env
        \<and> (\<forall>t. t \<noteq> target \<longrightarrow>
              mystromDurationCounterVec (snd (scrapeHandler env r st)) t
                = mystromDurationCounterVec st t))
     \<and> (\<forall>err. fst (exporter_Scrape env target (world st)) = Inl err \<longrightarrow>
        mystromRequestsCounterVec (snd (scrapeHandler env r st)) (target, status_String env (kind_of err))
          = mystromRequestsCounterVec st (target, status_String env (kind_of err)) + 1
        \<and> (\<forall>labels. labels \<noteq> (target, status_String env (kind_of err)) \<longrightarrow>
              mystromRequestsCounterVec (snd (scrapeHandler env r st)) labels
                = mystromRequestsCounterVec st labels)
        \<and> mystromDurationCounterVec (snd (scrapeHandler env r st)) = mystromDurationCounterVec st)"
proof (intro impI conjI allI)
  fix gatherer
  assume a: "Values_Get (Query r) ''target'' = target \<and> target \<noteq> []"
    and ok: "fst (exporter_Scrape env target (world st)) = Inr gatherer"
  obtain w where w: "exporter_Scrape env target (world st) = (Inr gatherer, w)"
    using ok by (cases "exporter_Scrape env target (world st)") simp
  with a have h: "scrapeHandler env r st =
     (ServeHTTP gatherer,
      st\<lparr>world := w,
         mystromDurationCounterVec := Add (mystromDurationCounterVec st) target (elapsed env),
         mystromRequestsCounterVec :=
           Inc (mystromRequestsCounterVec st) (target, status_String env OK)\<rparr>)"
    by (simp add: scrapeHandler_success)
  show "mystromRequestsCounterVec (snd (scrapeHandler env r st)) (target, status_String env OK)
          = mystromRequestsCounterVec st (target, status_String env OK) + 1"
    unfolding h by (simp add: Inc_def)
  show "mystromDurationCounterVec (snd (scrapeHandler env r st)) target
            = mystromDurationCounterVec st target + elapsed env"
    unfolding h by (simp add: Add_def)
  show "mystromRequestsCounterVec (snd (scrapeHandler env r st)) labels
                = mystromRequestsCounterVec st labels"
    if "labels \<noteq> (target, status_String env OK)" for labels
    unfolding h using that by (simp add: Inc_def)
  show "mystromDurationCounterVec (snd (scrapeHandler env r st)) t = mystromDurationCounterVec st t"
    if "t \<noteq> target" for t
    unfolding h using that by (simp add: Add_def)
next
  fix err
  assume a: "Values_Get (Query r) ''target'' = target \<and> target \<noteq> []"
    and bad: "fst (exporter_Scrape env target (world st)) = Inl err"
  obtain w where w: "exporter_Scrape env target (world st) = (Inl err, w)"
    using bad by (cases "exporter_Scrape env target (world st)") simp
  with a have h: "scrapeHandler env r st =
     (Error (''failed to scrape target '' @ squote # target @ squote # '': '' @ err) 500,
      st\<lparr>world := w,
         mystromRequestsCounterVec :=
           Inc (mystromRequestsCounterVec st) (target, status_String env (kind_of err))\<rparr>)"
    by (simp add: scrapeHandler_failure)
  show "mystromRequestsCounterVec (snd (scrapeHandler env r st)) (target, status_String env (kind_of err))
          = mystromRequestsCounterVec st (target, status_String env (kind_of err)) + 1"
    unfolding h by (simp add: Inc_def)
  show "mystromDurationCounterVec (snd (scrapeHandler env r st)) = mystromDurationCounterVec st"
    unfolding h by simp
  show "mystromRequestsCounterVec (snd (scrapeHandler env r st)) labels
                = mystromRequestsCounterVec st labels"
    if "labels \<noteq> (target, status_String env (kind_of err))" for labels
    unfolding h using that by (simp add: Inc_def)
qed

theorem scrape_counters_frame_witness:
  "mystromRequestsCounterVec (snd (scrapeHandler
       \<lparr>status_String = stringer, exporter_Scrape = counting_client (\<lambda>t. Inr ()), elapsed = 1 / 2\<rparr>
       (device_request ''10.0.0.5'') fresh_state)) (''10.0.0.5'', ''OK'') = 1
   \<and> mystromDurationCounterVec (snd (scrapeHandler
       \<lparr>status_String = stringer, exporter_Scrape = counting_client (\<lambda>t. Inr ()), elapsed = 1 / 2\<rparr>
       (device_request ''10.0.0.5'') fresh_state)) ''10.0.0.5'' = 1 / 2
   \<and> mystromRequestsCounterVec (snd (scrapeHandler
       \<lparr>status_String = stringer,
        exporter_Scrape =
          counting_client (\<lambda>t. Inl ''unable to connect with target 10.0.0.5'' :: string + unit),
        elapsed = 1 / 2\<rparr>
       (device_request ''10.0.0.5'') fresh_state)) (''10.0.0.5'', ''ErrorSocket'') = 1
   \<and> mystromDurationCounterVec (snd (scrapeHandler
       \<lparr>status_String = stringer,
        exporter_Scrape =
          counting_client (\<lambda>t. Inl ''unable to connect with target 10.0.0.5'' :: string + unit),
        elapsed = 1 / 2\<rparr>
       (device_request ''10.0.0.5'') fresh_state)) ''10.0.0.5'' = 0"
proof -
  define good :: "(unit, string list) scrape_env"
    where "good = \<lparr>status_String = stringer, exporter_Scrape = counting_client (\<lambda>t. Inr ()), elapsed = 1 / 2\<rparr>"
  define bad :: "(unit, string list) scrape_env"
    where "bad = \<lparr>status_String = stringer,
        exporter_Scrape = counting_client (\<lambda>t. Inl ''unable to connect with target 10.0.0.5''),
        elapsed = 1 / 2\<rparr>"
  have t: "Values_Get (Query (device_request ''10.0.0.5'')) ''target'' = ''10.0.0.5'' \<and> ''10.0.0.5'' \<noteq> []"
    by (simp add: Values_Get_device_request)
  have k: "kind_of ''unable to connect with target 10.0.0.5'' = ErrorSocket"
    by (simp add: kind_of_def)
  have g: "fst (exporter_Scrape good ''10.0.0.5'' (world fresh_state)) = Inr ()"
    by (simp add: good_def counting_client_def)
  have b: "fst (exporter_Scrape bad ''10.0.0.5'' (world fresh_state))
             = Inl ''unable to connect with target 10.0.0.5''"
    by (simp add: bad_def counting_client_def)
  from scrape_counters_frame [where r = "device_request ''10.0.0.5''" and target = "''10.0.0.5''"
      and env = good and st = fresh_state] t g
  have 1: "mystromRequestsCounterVec (snd (scrapeHandler good (device_request ''10.0.0.5'') fresh_state))
              (''10.0.0.5'', ''OK'') = 1
         \<and> mystromDurationCounterVec (snd (scrapeHandler good (device_request ''10.0.0.5'') fresh_state))
              ''10.0.0.5'' = 1 / 2"
    by (simp add: good_def fresh_state_def)
  from scrape_counters_frame [where r = "device_request ''10.0.0.5''" and target = "''10.0.0.5''"
      and env = bad and st = fresh_state] t b
  have 2: "mystromRequestsCounterVec (snd (scrapeHandler bad (device_request ''10.0.0.5'') fresh_state))
              (''10.0.0.5'', ''ErrorSocket'') = 1
         \<and> mystromDurationCounterVec (snd (scrapeHandler bad (device_request ''10.0.0.5'') fresh_state))
              ''10.0.0.5'' = 0"
    unfolding k [symmetric] by (simp add: bad_def fresh_state_def k)
  from 1 2 show ?thesis unfolding good_def bad_def by blast
qed

theorem scrape_duration_counter_counterexample:
  "fst (scrapeHandler
       \<lparr>status_String = stringer, exporter_Scrape = counting_client (\<lambda>t. Inr ()), elapsed = 1 / 2\<rparr>
       (device_request ''10.0.0.5'') fresh_state) = ServeHTTP ()
   \<and> mystromDurationCounterVec (snd (scrapeHandler
       \<lparr>status_String = stringer, exporter_Scrape = counting_client (\<lambda>t. Inr ()), elapsed = 1 / 2\<rparr>
       (device_request ''10.0.0.5'') fresh_state)) ''10.0.0.5''
     \<noteq> mystromDurationCounterVec fresh_state ''10.0.0.5'' + 1"
  by (simp add: scrapeHandler_def device_request_def Values_Get_def fresh_state_def
        counting_client_def Add_def Inc_def Let_def)

end
